theory Spec2Isabelle
  imports Main "HOL-Library.Word" "HOL-Library.Sublist"
begin

section \<open>The GitHub issue template of danger-js\<close>

text \<open>
  A shallow embedding of \<^verbatim>\<open>source/runner/templates/githubIssueTemplate.ts\<close>.
  Every function of the module is pure and total; each is translated into a HOL function
  of the same name. The template literals are written out as concatenations, with every
  newline and every space of the source.
\<close>

subsection \<open>JavaScript strings\<close>

text \<open>
  A JavaScript string is a sequence of UTF-16 code units: \<^verbatim>\<open>length\<close> and
  \<^verbatim>\<open>substr\<close> count code units. The string literals of the module are ASCII;
  \<open>lit\<close> embeds them.
\<close>

type_synonym code_unit = "16 word"
type_synonym jsstring = "code_unit list"

definition lit :: "string \<Rightarrow> jsstring" where
  "lit s = map of_char s"

text \<open>
  \<^verbatim>\<open>String.prototype.substr(start, length)\<close>: a negative start counts from the end,
  the length is clamped to what is left of the string.
\<close>

definition substr :: "jsstring \<Rightarrow> int \<Rightarrow> int \<Rightarrow> jsstring" where
  "substr s start len =
     (let size = int (length s);
          st = (if start < 0 then max (size + start) 0 else min start size);
          n = min (max len 0) (size - st)
      in take (nat n) (drop (nat st) s))"

text \<open>\<^verbatim>\<open>Array.prototype.join(sep)\<close>.\<close>

fun join :: "jsstring \<Rightarrow> jsstring list \<Rightarrow> jsstring" where
  "join sep [] = []"
| "join sep [x] = x"
| "join sep (x # y # ys) = x @ sep @ join sep (y # ys)"

text \<open>
  \<^verbatim>\<open>Array.prototype.reduce(f, init)\<close> with a callback that also reads the index.
\<close>

fun reduce :: "('b \<Rightarrow> 'a \<Rightarrow> nat \<Rightarrow> 'b) \<Rightarrow> 'b \<Rightarrow> nat \<Rightarrow> 'a list \<Rightarrow> 'b" where
  "reduce f acc idx [] = acc"
| "reduce f acc idx (x # xs) = reduce f (f acc x idx) (Suc idx) xs"

text \<open>
  Numbers in template literals. The numbers the module prints are array lengths and line
  numbers: integers, printed in decimal (the model covers integers below \<open>10 ^ 21\<close>,
  above which JavaScript switches to exponent notation).
\<close>

definition digit :: "nat \<Rightarrow> code_unit" where
  "digit d = lit ''0123456789'' ! d"

fun digits :: "nat \<Rightarrow> jsstring" where
  "digits n =
     (if n < 10 then [digit n]
      else digits (n div 10) @ [digit (n mod 10)])"

declare digits.simps [simp del]

definition numberToString :: "int \<Rightarrow> jsstring" where
  "numberToString i =
     (if i < 0 then lit ''-'' @ digits (nat (- i)) else digits (nat i))"

text \<open>
  \<^verbatim>\<open>String.prototype.match\<close> with a global regular expression of the form
  \<^verbatim>\<open>/[...]+/g\<close>: the matches are the maximal runs of characters of the class, from
  left to right; the result is \<^verbatim>\<open>null\<close> when there is none.
\<close>

function runs :: "(code_unit \<Rightarrow> bool) \<Rightarrow> jsstring \<Rightarrow> jsstring list" where
  "runs P [] = []"
| "runs P (c # cs) =
     (if P c then takeWhile P (c # cs) # runs P (dropWhile P cs) else runs P cs)"
  by pat_completeness auto
termination
  by (relation "measure (\<lambda>(P, s). length s)")
     (auto simp: length_dropWhile_le less_Suc_eq_le)

definition match_g :: "(code_unit \<Rightarrow> bool) \<Rightarrow> jsstring \<Rightarrow> jsstring list option" where
  "match_g P s = (let ms = runs P s in if ms = [] then None else Some ms)"

subsection \<open>The data model\<close>

text \<open>
  \<^verbatim>\<open>Violation\<close> and \<^verbatim>\<open>DangerResults\<close> are declared in
  \<^verbatim>\<open>dsl/Violation.ts\<close> and \<^verbatim>\<open>dsl/DangerResults.ts\<close>: a message, and an
  optional file, line and icon; four lists of violations and an optional \<^verbatim>\<open>meta\<close>.
  The message is a string, so the only falsy message is the empty string; an optional
  field that is absent is \<open>None\<close>.
\<close>

record Violation =
  message :: jsstring
  "file" :: "jsstring option"
  line :: "int option"
  icon :: "jsstring option"

record Meta =
  runtimeName :: jsstring
  runtimeHref :: jsstring

record DangerResults =
  fails :: "Violation list"
  warnings :: "Violation list"
  messages :: "Violation list"
  markdowns :: "Violation list"
  meta :: "Meta option"

text \<open>
  Modelled from the spec: \<^verbatim>\<open>isInline\<close> of \<^verbatim>\<open>dsl/Violation.ts\<close>, which is
  imported by the template and not part of it. A violation is inline if both its file and
  its line are present.
\<close>

definition isInline :: "Violation \<Rightarrow> bool" where
  "isInline violation \<longleftrightarrow> file violation \<noteq> None \<and> line violation \<noteq> None"

text \<open>
  \<^verbatim>\<open>violation.icon || emojiString\<close>: an absent icon and the empty string are both
  falsy.
\<close>

definition iconOr :: "jsstring option \<Rightarrow> jsstring \<Rightarrow> jsstring" where
  "iconOr i emojiString =
     (case i of None \<Rightarrow> emojiString | Some s \<Rightarrow> if s = [] then emojiString else s)"

subsection \<open>The template\<close>

definition markdownClass :: "code_unit \<Rightarrow> bool" where
  \<open>markdownClass c \<longleftrightarrow> c \<in> set (lit ''`*_~['')\<close>

definition containsMarkdown :: "jsstring \<Rightarrow> bool" where
  "containsMarkdown message' =
     (case match_g markdownClass message' of Some ms \<Rightarrow> True | None \<Rightarrow> False)"

text \<open>
  The local variable \<^verbatim>\<open>message\<close> of \<^verbatim>\<open>htmlForValidation\<close>: first the message
  with its location, then the same wrapped when it contains markdown.
\<close>

definition locatedMessage :: "Violation \<Rightarrow> jsstring" where
  "locatedMessage violation =
     (if isInline violation
      then lit ''**'' @ the (file violation) @ lit ''#L''
           @ numberToString (the (line violation)) @ lit ''** - '' @ message violation
      else message violation)"

definition cellMessage :: "Violation \<Rightarrow> jsstring" where
  "cellMessage violation =
     (let message' = locatedMessage violation
      in if containsMarkdown message'
         then lit ''\<newline>\<newline>  '' @ message' @ lit ''\<newline>  ''
         else message')"

definition htmlForValidation :: "jsstring \<Rightarrow> Violation \<Rightarrow> jsstring" where
  "htmlForValidation defaultEmoji violation =
     (let message' = cellMessage violation;
          emojiString = lit '':'' @ defaultEmoji @ lit '':''
      in lit ''<tr>\<newline>      <td>'' @ iconOr (icon violation) emojiString
         @ lit ''</td>\<newline>      <td>'' @ message'
         @ lit ''</td>\<newline>    </tr>\<newline>  '')"

definition noViolationsOrAllOfThemEmpty :: "Violation list \<Rightarrow> bool" where
  "noViolationsOrAllOfThemEmpty violations \<longleftrightarrow>
     length violations = 0 \<or> list_all (\<lambda>violation. message violation = []) violations"

definition table :: "jsstring \<Rightarrow> jsstring \<Rightarrow> Violation list \<Rightarrow> jsstring" where
  \<open>table name defaultEmoji violations =
     (if noViolationsOrAllOfThemEmpty violations then []
      else lit ''\<newline><table>\<newline>  <thead>\<newline>    <tr>\<newline>      <th width="50"></th>\<newline>      <th width="100%" data-danger-table="true">''
           @ name
           @ lit ''</th>\<newline>    </tr>\<newline>  </thead>\<newline>  <tbody>''
           @ join (lit ''\<newline>'') (map (htmlForValidation defaultEmoji) violations)
           @ lit ''</tbody>\<newline></table>\<newline>'')\<close>

definition truncate :: "jsstring \<Rightarrow> int \<Rightarrow> jsstring" where
  "truncate msg count =
     (if msg = [] then msg
      else if int (length msg) < count then msg
      else substr msg 0 (count - 3) @ lit ''...'')"

definition getSummary :: "jsstring \<Rightarrow> Violation list \<Rightarrow> jsstring" where
  "getSummary label violations =
     reduce
       (\<lambda>acc value idx.
          acc @ lit '' '' @ value
          @ (if int idx = int (length violations) - 1 then [] else lit '',''))
       (numberToString (int (length violations)) @ lit '' '' @ label @ lit '': '')
       0
       (map (\<lambda>x. truncate (message x) 20) violations)"

definition dangerIDToString :: "jsstring \<Rightarrow> jsstring" where
  "dangerIDToString id' = lit ''DangerID: danger-id-'' @ id' @ lit '';''"

definition fileLineToString :: "jsstring \<Rightarrow> int \<Rightarrow> jsstring" where
  "fileLineToString f l =
     lit ''  File: '' @ f @ lit '';\<newline>  Line: '' @ numberToString l @ lit '';''"

definition buildSummaryMessage :: "jsstring \<Rightarrow> DangerResults \<Rightarrow> jsstring" where
  "buildSummaryMessage dangerID results =
     lit ''  '' @ getSummary (lit ''failure'') (fails results)
     @ lit ''\<newline>  '' @ getSummary (lit ''warning'') (warnings results)
     @ lit ''\<newline>  ''
     @ (if length (messages results) > 0
        then numberToString (int (length (messages results))) @ lit '' messages''
        else [])
     @ lit ''\<newline>  ''
     @ (if length (markdowns results) > 0
        then numberToString (int (length (markdowns results))) @ lit '' markdown notices''
        else [])
     @ lit ''\<newline>  '' @ dangerIDToString dangerID"

definition dangerSignature :: "DangerResults \<Rightarrow> jsstring" where
  \<open>dangerSignature results =
     (let meta' = (case meta results of
                     Some m \<Rightarrow> m
                   | None \<Rightarrow> \<lparr>runtimeName = lit ''dangerJS'',
                              runtimeHref = lit ''https://danger.systems/js''\<rparr>)
      in lit ''Generated by :no_entry_sign: <a href="'' @ runtimeHref meta'
         @ lit ''">'' @ runtimeName meta' @ lit ''</a>'')\<close>

definition dangerSignaturePostfix :: "DangerResults \<Rightarrow> jsstring option \<Rightarrow> jsstring" where
  "dangerSignaturePostfix results commitID =
     (let signature = dangerSignature results
      in case commitID of
           Some c \<Rightarrow> signature @ lit '' against '' @ c
         | None \<Rightarrow> signature)"

definition template :: "jsstring \<Rightarrow> DangerResults \<Rightarrow> jsstring option \<Rightarrow> jsstring" where
  \<open>template dangerID results commitID =
     lit ''\<newline><!--\<newline>'' @ buildSummaryMessage dangerID results
     @ lit ''\<newline>-->\<newline>''
     @ table (lit ''Fails'') (lit ''no_entry_sign'') (fails results)
     @ lit ''\<newline>''
     @ table (lit ''Warnings'') (lit ''warning'') (warnings results)
     @ lit ''\<newline>''
     @ table (lit ''Messages'') (lit ''book'') (messages results)
     @ lit ''\<newline>''
     @ join (lit ''\<newline>\<newline>'') (map message (markdowns results))
     @ lit ''\<newline><p align="right">\<newline>  ''
     @ dangerSignaturePostfix results commitID
     @ lit ''\<newline></p>\<newline>''\<close>

text \<open>The closure \<^verbatim>\<open>printViolation\<close> of \<^verbatim>\<open>inlineTemplate\<close>.\<close>

definition printViolation :: "jsstring \<Rightarrow> Violation \<Rightarrow> jsstring" where
  "printViolation defaultEmoji violation =
     (let emojiString = lit '':'' @ defaultEmoji @ lit '':''
      in lit ''- '' @ iconOr (icon violation) emojiString @ lit '' '' @ message violation)"

definition inlineTemplate ::
    "jsstring \<Rightarrow> DangerResults \<Rightarrow> jsstring \<Rightarrow> int \<Rightarrow> jsstring" where
  "inlineTemplate dangerID results f l =
     lit ''\<newline><!--\<newline>'' @ buildSummaryMessage dangerID results
     @ lit ''\<newline>'' @ fileLineToString f l
     @ lit ''\<newline>-->\<newline>''
     @ join (lit ''\<newline>'') (map (printViolation (lit ''no_entry_sign'')) (fails results))
     @ lit ''\<newline>''
     @ join (lit ''\<newline>'') (map (printViolation (lit ''warning'')) (warnings results))
     @ lit ''\<newline>''
     @ join (lit ''\<newline>'') (map (printViolation (lit ''book'')) (messages results))
     @ lit ''\<newline>''
     @ join (lit ''\<newline>\<newline>'') (map message (markdowns results))
     @ lit ''\<newline>  ''"

section \<open>Properties\<close>

subsection \<open>Strings, numbers and sublists\<close>

lemma lit_Nil [simp]: "lit [] = []"
  by (simp add: lit_def)

lemma length_lit [simp]: "length (lit s) = length s"
  by (simp add: lit_def)

lemma lit_eq_Nil [simp]: "lit s = [] \<longleftrightarrow> s = []"
  by (simp add: lit_def)

lemma numberToString_0: "numberToString 0 = lit ''0''"
  by (simp add: numberToString_def digits.simps digit_def lit_def)

lemma numberToString_1: "numberToString 1 = lit ''1''"
  by (simp add: numberToString_def digits.simps digit_def lit_def)

lemma numberToString_2: "numberToString 2 = lit ''2''"
  by (simp add: numberToString_def digits.simps digit_def lit_def)

lemma numberToString_3: "numberToString 3 = lit ''3''"
  by (simp add: numberToString_def digits.simps digit_def lit_def)

lemma join_Cons: "xs \<noteq> [] \<Longrightarrow> join sep (x # xs) = x @ sep @ join sep xs"
  by (cases xs) simp_all

lemma sublist_in_append_left: "sublist xs ys \<Longrightarrow> sublist xs (ys @ zs)"
  by (auto simp: sublist_def) (metis append.assoc)

lemma sublist_in_append_right: "sublist xs zs \<Longrightarrow> sublist xs (ys @ zs)"
  by (auto simp: sublist_def) (metis append.assoc)

lemma sublist_join: "x \<in> set xs \<Longrightarrow> sublist x (join sep xs)"
proof (induction sep xs rule: join.induct)
  case (1 sep)
  then show ?case by simp
next
  case (2 sep y)
  then show ?case by simp
next
  case (3 sep y z zs)
  show ?case
  proof (cases "x = y")
    case True
    then show ?thesis by simp
  next
    case False
    with 3 have "sublist x (join sep (z # zs))" by simp
    then have "sublist x ((y @ sep) @ join sep (z # zs))"
      by (rule sublist_in_append_right)
    then show ?thesis by simp
  qed
qed

subsection \<open>Truncation\<close>

lemma substr_from_start: "0 \<le> n \<Longrightarrow> substr s 0 n = take (nat n) s"
  by (simp add: substr_def Let_def min_def)

lemma truncate_short: "int (length msg) < count \<Longrightarrow> truncate msg count = msg"
  by (simp add: truncate_def)

lemma truncate_long:
  "msg \<noteq> [] \<Longrightarrow> 3 \<le> count \<Longrightarrow> count \<le> int (length msg) \<Longrightarrow>
   truncate msg count = take (nat (count - 3)) msg @ lit ''...''"
  by (simp add: truncate_def substr_from_start)

lemma truncate_20_long:
  "20 \<le> length msg \<Longrightarrow> truncate msg 20 = take 17 msg @ lit ''...''"
  using truncate_long [of msg 20] by fastforce

subsection \<open>Markdown detection and table rows\<close>

lemma runs_Nil_iff: "runs P s = [] \<longleftrightarrow> (\<forall>c\<in>set s. \<not> P c)"
  by (induction P s rule: runs.induct) auto

lemma containsMarkdown_iff:
  "containsMarkdown m \<longleftrightarrow> (\<exists>c\<in>set m. markdownClass c)"
  by (auto simp: containsMarkdown_def match_g_def Let_def runs_Nil_iff)

lemma markdownClass_star: "markdownClass (of_char CHR ''*'')"
  by (simp add: markdownClass_def lit_def)

lemma containsMarkdown_located:
  "isInline v \<Longrightarrow> containsMarkdown (locatedMessage v)"
  using markdownClass_star
  by (auto simp: containsMarkdown_iff locatedMessage_def lit_def)

lemma not_containsMarkdown_bad: "\<not> containsMarkdown (lit ''bad'')"
  by (simp add: containsMarkdown_iff markdownClass_def lit_def)

lemma htmlForValidation_row:
  "htmlForValidation e v =
     lit ''<tr>\<newline>      <td>'' @ iconOr (icon v) (lit '':'' @ e @ lit '':'')
     @ lit ''</td>\<newline>      <td>'' @ cellMessage v @ lit ''</td>\<newline>    </tr>\<newline>  ''"
  by (simp add: htmlForValidation_def Let_def)

lemma cellMessage_plain:
  "\<not> isInline v \<Longrightarrow> \<not> containsMarkdown (message v) \<Longrightarrow> cellMessage v = message v"
  by (simp add: cellMessage_def locatedMessage_def Let_def)

lemma cellMessage_wrapped:
  "\<not> isInline v \<Longrightarrow> containsMarkdown (message v) \<Longrightarrow>
   cellMessage v = lit ''\<newline>\<newline>  '' @ message v @ lit ''\<newline>  ''"
  by (simp add: cellMessage_def locatedMessage_def Let_def)

lemma cellMessage_inline:
  assumes "file v = Some f" and "line v = Some l"
  shows "cellMessage v =
     lit ''\<newline>\<newline>  '' @ lit ''**'' @ f @ lit ''#L'' @ numberToString l @ lit ''** - ''
     @ message v @ lit ''\<newline>  ''"
proof -
  have inl: "isInline v" using assms by (simp add: isInline_def)
  have "locatedMessage v =
      lit ''**'' @ f @ lit ''#L'' @ numberToString l @ lit ''** - '' @ message v"
    using assms by (simp add: locatedMessage_def isInline_def)
  then show ?thesis
    using containsMarkdown_located [OF inl] by (simp add: cellMessage_def Let_def)
qed

subsection \<open>Tables and templates\<close>

lemma table_Nil_iff:
  "table name defaultEmoji violations = [] \<longleftrightarrow> noViolationsOrAllOfThemEmpty violations"
  by (simp add: table_def lit_def)

lemma table_omitted: "noViolationsOrAllOfThemEmpty vs \<Longrightarrow> table name e vs = []"
  by (simp add: table_def)

lemma table_rendered:
  \<open>\<not> noViolationsOrAllOfThemEmpty violations \<Longrightarrow>
   table name defaultEmoji violations =
     lit ''\<newline><table>\<newline>  <thead>\<newline>    <tr>\<newline>      <th width="50"></th>\<newline>      <th width="100%" data-danger-table="true">''
     @ name
     @ lit ''</th>\<newline>    </tr>\<newline>  </thead>\<newline>  <tbody>''
     @ join (lit ''\<newline>'') (map (htmlForValidation defaultEmoji) violations)
     @ lit ''</tbody>\<newline></table>\<newline>''\<close>
  by (simp add: table_def)

lemma sublist_row_table:
  assumes "v \<in> set vs" and "\<not> noViolationsOrAllOfThemEmpty vs"
  shows "sublist (htmlForValidation e v) (table name e vs)"
proof -
  have "sublist (htmlForValidation e v)
      (join (lit ''\<newline>'') (map (htmlForValidation e) vs))"
    using assms(1) by (intro sublist_join) simp
  then show ?thesis
    by (simp add: table_rendered [OF assms(2)] sublist_in_append_left sublist_in_append_right)
qed

lemma sublist_tables_template:
  "sublist (table (lit ''Fails'') (lit ''no_entry_sign'') (fails r)) (template d r c)"
  "sublist (table (lit ''Warnings'') (lit ''warning'') (warnings r)) (template d r c)"
  "sublist (table (lit ''Messages'') (lit ''book'') (messages r)) (template d r c)"
  by (simp_all add: template_def sublist_in_append_left sublist_in_append_right)

lemma sublist_bullets_inlineTemplate:
  "sublist (join (lit ''\<newline>'') (map (printViolation (lit ''no_entry_sign'')) (fails r)))
     (inlineTemplate d r f l)"
  "sublist (join (lit ''\<newline>'') (map (printViolation (lit ''warning'')) (warnings r)))
     (inlineTemplate d r f l)"
  "sublist (join (lit ''\<newline>'') (map (printViolation (lit ''book'')) (messages r)))
     (inlineTemplate d r f l)"
  by (simp_all add: inlineTemplate_def sublist_in_append_left sublist_in_append_right)


lemma table_bad_and_empty:
  \<open>table (lit ''Fails'') (lit ''no_entry_sign'')
     [\<lparr>message = lit ''bad'', file = None, line = None, icon = None\<rparr>,
      \<lparr>message = [], file = None, line = None, icon = None\<rparr>] =
   lit ''\<newline><table>\<newline>  <thead>\<newline>    <tr>\<newline>      <th width="50"></th>\<newline>      <th width="100%" data-danger-table="true">Fails</th>\<newline>    </tr>\<newline>  </thead>\<newline>  <tbody><tr>\<newline>      <td>:no_entry_sign:</td>\<newline>      <td>bad</td>\<newline>    </tr>\<newline>  \<newline><tr>\<newline>      <td>:no_entry_sign:</td>\<newline>      <td></td>\<newline>    </tr>\<newline>  </tbody>\<newline></table>\<newline>''\<close>
proof -
  let ?b = "\<lparr>message = lit ''bad'', file = None, line = None, icon = None\<rparr>"
  let ?e = "\<lparr>message = [], file = None, line = None, icon = None\<rparr>"
  have b: "cellMessage ?b = lit ''bad''"
    using not_containsMarkdown_bad by (simp add: cellMessage_plain isInline_def)
  have e: "cellMessage ?e = []"
    by (simp add: cellMessage_plain isInline_def containsMarkdown_iff)
  have "\<not> noViolationsOrAllOfThemEmpty [?b, ?e]"
    by (simp add: noViolationsOrAllOfThemEmpty_def lit_def)
  then show ?thesis
    by (simp add: table_rendered htmlForValidation_row b e iconOr_def) (simp add: lit_def)
qed

subsection \<open>The hidden summary\<close>

lemma reduce_summary:
  "i + length xs = n \<Longrightarrow>
   reduce (\<lambda>acc value idx.
             acc @ lit '' '' @ value @ (if int idx = int n - 1 then [] else lit '',''))
     acc i xs =
   acc @ (if xs = [] then [] else lit '' '' @ join (lit '', '') xs)"
proof (induction xs arbitrary: acc i)
  case Nil
  then show ?case by simp
next
  case (Cons x xs)
  let ?f = "\<lambda>acc value idx.
             acc @ lit '' '' @ value @ (if int idx = int n - 1 then [] else lit '','')"
  show ?case
  proof (cases "xs = []")
    case True
    with Cons.prems show ?thesis by auto
  next
    case False
    with Cons.prems have "int i \<noteq> int n - 1" by auto
    then have "reduce ?f acc i (x # xs) = reduce ?f (acc @ lit '' '' @ x @ lit '','') (Suc i) xs"
      by simp
    also have "\<dots> = (acc @ lit '' '' @ x @ lit '','') @ lit '' '' @ join (lit '', '') xs"
      using Cons.IH [of "Suc i" "acc @ lit '' '' @ x @ lit '',''"] Cons.prems False by simp
    also have "\<dots> = acc @ lit '' '' @ x @ lit '', '' @ join (lit '', '') xs"
      by (simp add: lit_def)
    also have "\<dots> = acc @ lit '' '' @ join (lit '', '') (x # xs)"
      using False by (simp add: join_Cons)
    finally show ?thesis by simp
  qed
qed

lemma getSummary_format:
  "getSummary label violations =
     numberToString (int (length violations)) @ lit '' '' @ label @ lit '': ''
     @ (if violations = [] then []
        else lit '' '' @ join (lit '', '') (map (\<lambda>x. truncate (message x) 20) violations))"
  unfolding getSummary_def
  by (subst reduce_summary [where n = "length violations"]) simp_all

lemma sublist_marker_summary:
  "sublist (dangerIDToString d) (buildSummaryMessage d r)"
  by (simp add: buildSummaryMessage_def sublist_in_append_left sublist_in_append_right)

lemma template_single_empty_failure:
  \<open>template (lit ''42'')
     \<lparr>fails = [\<lparr>message = [], file = None, line = None, icon = None\<rparr>],
      warnings = [], messages = [], markdowns = [], meta = None\<rparr> None =
   lit ''\<newline><!--\<newline>  1 failure:  \<newline>  0 warning: \<newline>  \<newline>  \<newline>  DangerID: danger-id-42;\<newline>-->\<newline>\<newline>\<newline>\<newline>\<newline><p align="right">\<newline>  Generated by :no_entry_sign: <a href="https://danger.systems/js">dangerJS</a>\<newline></p>\<newline>''\<close>
  unfolding template_def buildSummaryMessage_def
  by (simp add: getSummary_format numberToString_0 numberToString_1 truncate_def
      table_omitted noViolationsOrAllOfThemEmpty_def dangerIDToString_def
      dangerSignaturePostfix_def dangerSignature_def)
    (simp add: lit_def)

section \<open>The claims\<close>

text \<open>
  Claim C1. For every violation list among fails, warnings and messages, the table rendered
  for it is the empty string if and only if the list is empty or every violation in it has
  an empty message.
\<close>

theorem table_empty_iff:
  "table name defaultEmoji violations = [] \<longleftrightarrow>
     violations = [] \<or> (\<forall>violation\<in>set violations. message violation = [])"
  by (simp add: table_Nil_iff noViolationsOrAllOfThemEmpty_def list_all_iff)

theorem table_empty_iff_witness:
  "table (lit ''Fails'') (lit ''no_entry_sign'')
     [\<lparr>message = [], file = None, line = None, icon = None\<rparr>] = [] \<and>
   table (lit ''Warnings'') (lit ''warning'') [] = [] \<and>
   table (lit ''Messages'') (lit ''book'')
     [\<lparr>message = lit ''hello'', file = None, line = None, icon = None\<rparr>] \<noteq> []"
  using table_empty_iff [of "lit ''Fails''" "lit ''no_entry_sign''"
      "[\<lparr>message = [], file = None, line = None, icon = None\<rparr>]"]
    table_empty_iff [of "lit ''Warnings''" "lit ''warning''" "[]"]
    table_empty_iff [of "lit ''Messages''" "lit ''book''"
      "[\<lparr>message = lit ''hello'', file = None, line = None, icon = None\<rparr>]"]
  by simp

text \<open>
  Claim C2, amended. For a result set whose fails are a single violation with the empty
  message, the fails table is omitted and the hidden summary block begins with the line
  \<^verbatim>\<open>  1 failure:  \<close>: the count, the label, a colon and two spaces, and no comma.
  In general the line is \<^verbatim>\<open><N> <label>: \<close> followed, for a non-empty list, by a
  space and the messages, each truncated to 20 characters, separated by a comma and a
  space: the comma follows every message but the last.
\<close>

theorem single_empty_failure_summary:
  assumes "fails results = [v]" and "message v = []"
  shows "table (lit ''Fails'') (lit ''no_entry_sign'') (fails results) = [] \<and>
         getSummary (lit ''failure'') (fails results) = lit ''1 failure:  '' \<and>
         prefix (lit ''\<newline><!--\<newline>  1 failure:  \<newline>'') (template buildID results commitID) \<and>
         (\<forall>label violations. getSummary label violations =
            numberToString (int (length violations)) @ lit '' '' @ label @ lit '': ''
            @ (if violations = [] then []
               else lit '' '' @ join (lit '', '')
                      (map (\<lambda>x. truncate (message x) 20) violations)))"
proof (intro conjI allI)
  show "table (lit ''Fails'') (lit ''no_entry_sign'') (fails results) = []"
    using assms by (simp add: table_Nil_iff noViolationsOrAllOfThemEmpty_def)
next
  show s: "getSummary (lit ''failure'') (fails results) = lit ''1 failure:  ''"
    using assms
    by (simp add: getSummary_format numberToString_1 truncate_def) (simp add: lit_def)
  show "prefix (lit ''\<newline><!--\<newline>  1 failure:  \<newline>'') (template buildID results commitID)"
    unfolding template_def buildSummaryMessage_def s by (simp add: lit_def)
next
  fix label violations
  show "getSummary label violations =
            numberToString (int (length violations)) @ lit '' '' @ label @ lit '': ''
            @ (if violations = [] then []
               else lit '' '' @ join (lit '', '')
                      (map (\<lambda>x. truncate (message x) 20) violations))"
    by (rule getSummary_format)
qed

theorem single_empty_failure_summary_witness:
  "table (lit ''Fails'') (lit ''no_entry_sign'')
     [\<lparr>message = [], file = None, line = None, icon = None\<rparr>] = [] \<and>
   getSummary (lit ''failure'') [\<lparr>message = [], file = None, line = None, icon = None\<rparr>] =
     lit ''1 failure:  '' \<and>
   getSummary (lit ''warning'')
     [\<lparr>message = lit ''first'', file = None, line = None, icon = None\<rparr>,
      \<lparr>message = lit ''this one is too long to fit'', file = None, line = None, icon = None\<rparr>] =
     lit ''2 warning:  first, this one is too l...''"
proof -
  let ?r = "\<lparr>fails = [\<lparr>message = [], file = None, line = None, icon = None\<rparr>],
            warnings = [], messages = [], markdowns = [], meta = None\<rparr>"
  have f: "fails ?r = [\<lparr>message = [], file = None, line = None, icon = None\<rparr>]"
    and m: "message \<lparr>message = [], file = None, line = None, icon = None\<rparr> = []"
    by simp_all
  note t = single_empty_failure_summary [OF f m]
  have 1: "table (lit ''Fails'') (lit ''no_entry_sign'')
     [\<lparr>message = [], file = None, line = None, icon = None\<rparr>] = []"
    using t [THEN conjunct1] by simp
  have 2: "getSummary (lit ''failure'')
       [\<lparr>message = [], file = None, line = None, icon = None\<rparr>] = lit ''1 failure:  ''"
    using t [THEN conjunct2, THEN conjunct1] by simp
  have "truncate (lit ''first'') 20 = lit ''first''"
    by (simp add: truncate_def lit_def)
  moreover have "truncate (lit ''this one is too long to fit'') 20 = lit ''this one is too l...''"
    by (simp add: truncate_def substr_def lit_def)
  ultimately have 3: "getSummary (lit ''warning'')
     [\<lparr>message = lit ''first'', file = None, line = None, icon = None\<rparr>,
      \<lparr>message = lit ''this one is too long to fit'', file = None, line = None, icon = None\<rparr>] =
     lit ''2 warning:  first, this one is too l...''"
    using numberToString_2
    by (simp add: t [THEN conjunct2, THEN conjunct2, THEN conjunct2]) (simp add: lit_def)
  from 1 2 3 show ?thesis by (intro conjI)
qed

text \<open>
  As first stated, the claim has the summary contain the line \<^verbatim>\<open>1 failure: ,\<close>.
  The issue body for build \<^verbatim>\<open>42\<close> and the single failure with the empty message
  does not contain it.
\<close>

theorem summary_comma_counterexample:
  "\<not> sublist (lit ''1 failure: ,'')
       (template (lit ''42'')
          \<lparr>fails = [\<lparr>message = [], file = None, line = None, icon = None\<rparr>],
           warnings = [], messages = [], markdowns = [], meta = None\<rparr> None)"
  unfolding template_single_empty_failure
  by (simp add: lit_def sublist_code)

text \<open>
  Claim C3, amended. For the inline violation with file \<^verbatim>\<open>a.ts\<close>, line 3 and message
  \<^verbatim>\<open>bad\<close>, the message cell of the row is the markdown wrap around
  \<^verbatim>\<open>**a.ts#L3** - bad\<close>: two newlines and two spaces, then that string, then a
  newline and two spaces. For a violation with message \<^verbatim>\<open>bad\<close> that is not inline
  (file or line absent), the message cell is \<^verbatim>\<open>bad\<close>, with no location prefix.
\<close>

theorem located_row:
  "htmlForValidation defaultEmoji
     \<lparr>message = lit ''bad'', file = Some (lit ''a.ts''), line = Some 3, icon = i\<rparr> =
     lit ''<tr>\<newline>      <td>'' @ iconOr i (lit '':'' @ defaultEmoji @ lit '':'')
     @ lit ''</td>\<newline>      <td>\<newline>\<newline>  **a.ts#L3** - bad\<newline>  </td>\<newline>    </tr>\<newline>  '' \<and>
   (\<forall>v. message v = lit ''bad'' \<and> \<not> isInline v \<longrightarrow>
      htmlForValidation defaultEmoji v =
        lit ''<tr>\<newline>      <td>'' @ iconOr (icon v) (lit '':'' @ defaultEmoji @ lit '':'')
        @ lit ''</td>\<newline>      <td>bad</td>\<newline>    </tr>\<newline>  '')"
proof (intro conjI allI impI)
  let ?v = "\<lparr>message = lit ''bad'', file = Some (lit ''a.ts''), line = Some 3, icon = i\<rparr>"
  have cell: "cellMessage ?v = lit ''\<newline>\<newline>  **a.ts#L3** - bad\<newline>  ''"
    by (simp add: cellMessage_inline [of ?v "lit ''a.ts''" 3] numberToString_3)
      (simp add: lit_def)
  show "htmlForValidation defaultEmoji ?v =
     lit ''<tr>\<newline>      <td>'' @ iconOr i (lit '':'' @ defaultEmoji @ lit '':'')
     @ lit ''</td>\<newline>      <td>\<newline>\<newline>  **a.ts#L3** - bad\<newline>  </td>\<newline>    </tr>\<newline>  ''"
    by (simp add: htmlForValidation_row cell) (simp add: lit_def)
next
  fix v :: Violation
  assume v: "message v = lit ''bad'' \<and> \<not> isInline v"
  then have cell: "cellMessage v = lit ''bad''"
    using not_containsMarkdown_bad by (simp add: cellMessage_plain)
  show "htmlForValidation defaultEmoji v =
        lit ''<tr>\<newline>      <td>'' @ iconOr (icon v) (lit '':'' @ defaultEmoji @ lit '':'')
        @ lit ''</td>\<newline>      <td>bad</td>\<newline>    </tr>\<newline>  ''"
    by (simp add: htmlForValidation_row cell) (simp add: lit_def)
qed

theorem located_row_witness:
  "htmlForValidation (lit ''book'')
     \<lparr>message = lit ''bad'', file = Some (lit ''a.ts''), line = Some 3, icon = None\<rparr> =
     lit ''<tr>\<newline>      <td>:book:</td>\<newline>      <td>\<newline>\<newline>  **a.ts#L3** - bad\<newline>  </td>\<newline>    </tr>\<newline>  '' \<and>
   htmlForValidation (lit ''book'')
     \<lparr>message = lit ''bad'', file = Some (lit ''a.ts''), line = None, icon = None\<rparr> =
     lit ''<tr>\<newline>      <td>:book:</td>\<newline>      <td>bad</td>\<newline>    </tr>\<newline>  ''"
proof -
  let ?g = "\<lparr>message = lit ''bad'', file = Some (lit ''a.ts''), line = None, icon = None\<rparr>"
  have g: "message ?g = lit ''bad'' \<and> \<not> isInline ?g" by (simp add: isInline_def)
  from located_row [of "lit ''book''" None]
  have 1: "htmlForValidation (lit ''book'')
       \<lparr>message = lit ''bad'', file = Some (lit ''a.ts''), line = Some 3, icon = None\<rparr> =
     lit ''<tr>\<newline>      <td>'' @ iconOr None (lit '':'' @ lit ''book'' @ lit '':'')
     @ lit ''</td>\<newline>      <td>\<newline>\<newline>  **a.ts#L3** - bad\<newline>  </td>\<newline>    </tr>\<newline>  ''"
    and 2: "htmlForValidation (lit ''book'') ?g =
        lit ''<tr>\<newline>      <td>'' @ iconOr (icon ?g) (lit '':'' @ lit ''book'' @ lit '':'')
        @ lit ''</td>\<newline>      <td>bad</td>\<newline>    </tr>\<newline>  ''"
    using g by blast+
  show ?thesis
    unfolding 1 2 by (simp add: iconOr_def lit_def)
qed

text \<open>
  As first stated, the claim has the message cell of the inline violation begin with
  \<^verbatim>\<open>**a.ts#L3** - bad\<close>. Neither the cell nor the row does: the cell begins with
  the newlines of the wrap.
\<close>

theorem inline_cell_prefix_counterexample:
  "\<not> prefix (lit ''**a.ts#L3** - bad'')
       (cellMessage
          \<lparr>message = lit ''bad'', file = Some (lit ''a.ts''), line = Some 3, icon = None\<rparr>) \<and>
   \<not> prefix (lit ''<tr>\<newline>      <td>:no_entry_sign:</td>\<newline>      <td>**a.ts#L3** - bad'')
       (htmlForValidation (lit ''no_entry_sign'')
          \<lparr>message = lit ''bad'', file = Some (lit ''a.ts''), line = Some 3, icon = None\<rparr>)"
proof -
  let ?v = "\<lparr>message = lit ''bad'', file = Some (lit ''a.ts''), line = Some 3, icon = None\<rparr>"
  have cell: "cellMessage ?v = lit ''\<newline>\<newline>  **a.ts#L3** - bad\<newline>  ''"
    by (simp add: cellMessage_inline [of ?v "lit ''a.ts''" 3] numberToString_3)
      (simp add: lit_def)
  show ?thesis
    by (simp add: htmlForValidation_row cell iconOr_def) (simp add: lit_def)
qed

text \<open>
  Claim C4, amended. For a violation list that contains at least one violation with a
  non-empty message, the table has one row for every violation of the list, in order, also
  for a violation whose message is empty (the row of a violation that is not inline then
  has an empty message cell); and every violation of the list is counted in the count of
  the hidden summary line of its category.
\<close>

theorem table_rows_for_all:
  assumes "\<exists>v\<in>set violations. message v \<noteq> []"
  shows \<open>table name defaultEmoji violations =
     lit ''\<newline><table>\<newline>  <thead>\<newline>    <tr>\<newline>      <th width="50"></th>\<newline>      <th width="100%" data-danger-table="true">''
     @ name
     @ lit ''</th>\<newline>    </tr>\<newline>  </thead>\<newline>  <tbody>''
     @ join (lit ''\<newline>'') (map (htmlForValidation defaultEmoji) violations)
     @ lit ''</tbody>\<newline></table>\<newline>'' \<and>
   (\<forall>v\<in>set violations.
      sublist (htmlForValidation defaultEmoji v) (table name defaultEmoji violations)) \<and>
   (\<forall>v. message v = [] \<and> \<not> isInline v \<longrightarrow>
      htmlForValidation defaultEmoji v =
        lit ''<tr>\<newline>      <td>'' @ iconOr (icon v) (lit '':'' @ defaultEmoji @ lit '':'')
        @ lit ''</td>\<newline>      <td></td>\<newline>    </tr>\<newline>  '') \<and>
   prefix (numberToString (int (length violations)) @ lit '' '' @ label @ lit '': '')
     (getSummary label violations)\<close>
proof -
  have shown: "\<not> noViolationsOrAllOfThemEmpty violations"
    using assms by (auto simp: noViolationsOrAllOfThemEmpty_def list_all_iff)
  have empty_row: "htmlForValidation defaultEmoji v =
        lit ''<tr>\<newline>      <td>'' @ iconOr (icon v) (lit '':'' @ defaultEmoji @ lit '':'')
        @ lit ''</td>\<newline>      <td></td>\<newline>    </tr>\<newline>  ''"
    if "message v = [] \<and> \<not> isInline v" for v
  proof -
    have "cellMessage v = []"
      using that by (simp add: cellMessage_plain containsMarkdown_iff)
    then show ?thesis
      by (simp add: htmlForValidation_row) (simp add: lit_def)
  qed
  have "prefix (numberToString (int (length violations)) @ lit '' '' @ label @ lit '': '')
     (getSummary label violations)"
    by (subst getSummary_format) (simp add: prefix_def)
  then show ?thesis
    using table_rendered [OF shown] sublist_row_table [OF _ shown] empty_row
    by blast
qed

theorem table_rows_for_all_witness:
  \<open>table (lit ''Fails'') (lit ''no_entry_sign'')
     [\<lparr>message = lit ''bad'', file = None, line = None, icon = None\<rparr>,
      \<lparr>message = [], file = None, line = None, icon = None\<rparr>] =
   lit ''\<newline><table>\<newline>  <thead>\<newline>    <tr>\<newline>      <th width="50"></th>\<newline>      <th width="100%" data-danger-table="true">''
   @ lit ''Fails''
   @ lit ''</th>\<newline>    </tr>\<newline>  </thead>\<newline>  <tbody>''
   @ join (lit ''\<newline>'') (map (htmlForValidation (lit ''no_entry_sign''))
       [\<lparr>message = lit ''bad'', file = None, line = None, icon = None\<rparr>,
        \<lparr>message = [], file = None, line = None, icon = None\<rparr>])
   @ lit ''</tbody>\<newline></table>\<newline>'' \<and>
   sublist (lit ''<tr>\<newline>      <td>:no_entry_sign:</td>\<newline>      <td></td>\<newline>    </tr>\<newline>  '')
     (table (lit ''Fails'') (lit ''no_entry_sign'')
       [\<lparr>message = lit ''bad'', file = None, line = None, icon = None\<rparr>,
        \<lparr>message = [], file = None, line = None, icon = None\<rparr>]) \<and>
   prefix (lit ''2 failure: '')
     (getSummary (lit ''failure'')
       [\<lparr>message = lit ''bad'', file = None, line = None, icon = None\<rparr>,
        \<lparr>message = [], file = None, line = None, icon = None\<rparr>])\<close>
proof -
  let ?b = "\<lparr>message = lit ''bad'', file = None, line = None, icon = None\<rparr>"
  let ?e = "\<lparr>message = [], file = None, line = None, icon = None\<rparr>"
  have h: "\<exists>v\<in>set [?b, ?e]. message v \<noteq> []" by (simp add: lit_def)
  note t = table_rows_for_all [OF h, of "lit ''Fails''" "lit ''no_entry_sign''" "lit ''failure''"]
  have two: "numberToString (int (length [?b, ?e])) = lit ''2''"
    using numberToString_2 by simp
  have e: "message ?e = [] \<and> \<not> isInline ?e" by (simp add: isInline_def)
  have row: "htmlForValidation (lit ''no_entry_sign'') ?e =
      lit ''<tr>\<newline>      <td>:no_entry_sign:</td>\<newline>      <td></td>\<newline>    </tr>\<newline>  ''"
    using t [THEN conjunct2, THEN conjunct2, THEN conjunct1, rule_format, OF e]
    by (simp add: iconOr_def lit_def)
  have 1: "sublist (htmlForValidation (lit ''no_entry_sign'') ?e)
     (table (lit ''Fails'') (lit ''no_entry_sign'') [?b, ?e])"
    using t [THEN conjunct2, THEN conjunct1] by simp
  have 2: "prefix (lit ''2 failure: '') (getSummary (lit ''failure'') [?b, ?e])"
    using t [THEN conjunct2, THEN conjunct2, THEN conjunct2]
    unfolding two by (simp add: lit_def)
  from t [THEN conjunct1] 1 [unfolded row] 2 show ?thesis by (intro conjI)
qed

text \<open>
  As first stated, the claim has no row emitted for a violation with an empty message.
  The table of a failure \<^verbatim>\<open>bad\<close> followed by a failure with the empty message has
  two rows, the second with an empty message cell, and it differs from the table of the
  failure \<^verbatim>\<open>bad\<close> alone.
\<close>

theorem empty_message_row_counterexample:
  \<open>table (lit ''Fails'') (lit ''no_entry_sign'')
     [\<lparr>message = lit ''bad'', file = None, line = None, icon = None\<rparr>,
      \<lparr>message = [], file = None, line = None, icon = None\<rparr>] =
   lit ''\<newline><table>\<newline>  <thead>\<newline>    <tr>\<newline>      <th width="50"></th>\<newline>      <th width="100%" data-danger-table="true">Fails</th>\<newline>    </tr>\<newline>  </thead>\<newline>  <tbody><tr>\<newline>      <td>:no_entry_sign:</td>\<newline>      <td>bad</td>\<newline>    </tr>\<newline>  \<newline><tr>\<newline>      <td>:no_entry_sign:</td>\<newline>      <td></td>\<newline>    </tr>\<newline>  </tbody>\<newline></table>\<newline>'' \<and>
   table (lit ''Fails'') (lit ''no_entry_sign'')
     [\<lparr>message = lit ''bad'', file = None, line = None, icon = None\<rparr>,
      \<lparr>message = [], file = None, line = None, icon = None\<rparr>] \<noteq>
   table (lit ''Fails'') (lit ''no_entry_sign'')
     [\<lparr>message = lit ''bad'', file = None, line = None, icon = None\<rparr>]\<close>
proof -
  let ?b = "\<lparr>message = lit ''bad'', file = None, line = None, icon = None\<rparr>"
  have b: "cellMessage ?b = lit ''bad''"
    using not_containsMarkdown_bad by (simp add: cellMessage_plain isInline_def)
  have "\<not> noViolationsOrAllOfThemEmpty [?b]"
    by (simp add: noViolationsOrAllOfThemEmpty_def lit_def)
  then have \<open>table (lit ''Fails'') (lit ''no_entry_sign'') [?b] =
     lit ''\<newline><table>\<newline>  <thead>\<newline>    <tr>\<newline>      <th width="50"></th>\<newline>      <th width="100%" data-danger-table="true">Fails</th>\<newline>    </tr>\<newline>  </thead>\<newline>  <tbody><tr>\<newline>      <td>:no_entry_sign:</td>\<newline>      <td>bad</td>\<newline>    </tr>\<newline>  </tbody>\<newline></table>\<newline>''\<close>
    by (simp add: table_rendered htmlForValidation_row b iconOr_def) (simp add: lit_def)
  then show ?thesis
    unfolding table_bad_and_empty by (simp add: lit_def)
qed

text \<open>
  Claim C5. For a non-empty message, \<^verbatim>\<open>truncate(msg, 20)\<close> returns the message
  unchanged when its length is under 20; otherwise it returns the first \<open>20 - 3 = 17\<close>
  characters followed by the three characters \<^verbatim>\<open>...\<close>. For a message longer than
  20 characters the result has length exactly 20 and ends with \<^verbatim>\<open>...\<close>.
\<close>

theorem truncate_20:
  assumes "msg \<noteq> []"
  shows "(length msg < 20 \<longrightarrow> truncate msg 20 = msg) \<and>
         (20 \<le> length msg \<longrightarrow> truncate msg 20 = take (20 - 3) msg @ lit ''...'') \<and>
         (20 < length msg \<longrightarrow>
            length (truncate msg 20) = 20 \<and> suffix (lit ''...'') (truncate msg 20))"
proof (intro conjI impI)
  assume "length msg < 20"
  then show "truncate msg 20 = msg" by (simp add: truncate_short)
next
  assume "20 \<le> length msg"
  then show "truncate msg 20 = take (20 - 3) msg @ lit ''...''"
    by (simp add: truncate_20_long)
next
  assume "20 < length msg"
  then show "length (truncate msg 20) = 20" by (simp add: truncate_20_long)
next
  assume "20 < length msg"
  then show "suffix (lit ''...'') (truncate msg 20)"
    by (simp add: truncate_20_long suffix_def)
qed

theorem truncate_20_witness:
  "lit ''short'' \<noteq> [] \<and> truncate (lit ''short'') 20 = lit ''short'' \<and>
   truncate (lit ''a message of 27 characters.'') 20 = lit ''a message of 27 c...'' \<and>
   length (truncate (lit ''a message of 27 characters.'') 20) = 20 \<and>
   suffix (lit ''...'') (truncate (lit ''a message of 27 characters.'') 20)"
proof -
  let ?m = "lit ''a message of 27 characters.''"
  have s: "lit ''short'' \<noteq> []" and l: "?m \<noteq> []"
    by (simp_all add: lit_def)
  from truncate_20 [OF s] have 1: "truncate (lit ''short'') 20 = lit ''short''"
    by simp
  from truncate_20 [OF l] have 2: "truncate ?m 20 = take (20 - 3) ?m @ lit ''...''"
    and 3: "length (truncate ?m 20) = 20"
    and 4: "suffix (lit ''...'') (truncate ?m 20)"
    by (simp_all add: suffix_def)
  have 5: "take (20 - 3) ?m @ lit ''...'' = lit ''a message of 27 c...''"
    by (simp add: lit_def)
  show ?thesis using s 1 2 3 4 5 by simp
qed

text \<open>
  Claim C6. Truncation to 20 is idempotent:
  \<^verbatim>\<open>truncate(truncate(msg, 20), 20) = truncate(msg, 20)\<close> for every string.
\<close>

theorem truncate_20_idempotent: "truncate (truncate msg 20) 20 = truncate msg 20"
proof (cases "length msg < 20")
  case True
  then show ?thesis by (simp add: truncate_short)
next
  case False
  then have long: "20 \<le> length msg" by simp
  let ?t = "take 17 msg @ lit ''...''"
  have "length ?t = 20" using long by simp
  then have "truncate ?t 20 = take 17 ?t @ lit ''...''"
    by (simp add: truncate_20_long)
  also have "take 17 ?t = take 17 msg" using long by simp
  finally show ?thesis by (simp add: truncate_20_long long)
qed

theorem truncate_20_idempotent_witness:
  "truncate (truncate (lit ''a message of 27 characters.'') 20) 20 = lit ''a message of 27 c...''"
  using truncate_20_idempotent [of "lit ''a message of 27 characters.''"]
    truncate_20_long [of "lit ''a message of 27 characters.''"]
  by (simp add: lit_def)

text \<open>
  Claim C7. For every build identifier and every result set, the issue body contains the
  marker \<^verbatim>\<open>DangerID: danger-id-<buildID>;\<close>, and so does every inline body.
\<close>

theorem dangerID_marker:
  "sublist (lit ''DangerID: danger-id-'' @ buildID @ lit '';'')
     (template buildID results commitID) \<and>
   sublist (lit ''DangerID: danger-id-'' @ buildID @ lit '';'')
     (inlineTemplate buildID results f l)"
proof -
  have m: "lit ''DangerID: danger-id-'' @ buildID @ lit '';'' = dangerIDToString buildID"
    by (simp add: dangerIDToString_def)
  have "sublist (buildSummaryMessage buildID results) (template buildID results commitID)"
    by (simp add: template_def sublist_in_append_left sublist_in_append_right)
  moreover
  have "sublist (buildSummaryMessage buildID results) (inlineTemplate buildID results f l)"
    by (simp add: inlineTemplate_def sublist_in_append_left sublist_in_append_right)
  ultimately show ?thesis
    unfolding m using sublist_marker_summary [of buildID results]
    by (blast intro: sublist_order.order.trans)
qed

theorem dangerID_marker_witness:
  "sublist (lit ''DangerID: danger-id-42;'')
     (template (lit ''42'')
        \<lparr>fails = [\<lparr>message = lit ''bad'', file = None, line = None, icon = None\<rparr>],
         warnings = [], messages = [], markdowns = [], meta = None\<rparr> None) \<and>
   sublist (lit ''DangerID: danger-id-42;'')
     (inlineTemplate (lit ''42'')
        \<lparr>fails = [\<lparr>message = lit ''bad'', file = None, line = None, icon = None\<rparr>],
         warnings = [], messages = [], markdowns = [], meta = None\<rparr> (lit ''a.ts'') 3)"
proof -
  have "lit ''DangerID: danger-id-'' @ lit ''42'' @ lit '';'' = lit ''DangerID: danger-id-42;''"
    by (simp add: lit_def)
  then show ?thesis
    using dangerID_marker [of "lit ''42''"
        "\<lparr>fails = [\<lparr>message = lit ''bad'', file = None, line = None, icon = None\<rparr>],
         warnings = [], messages = [], markdowns = [], meta = None\<rparr>" None "lit ''a.ts''" 3]
    by simp
qed

text \<open>
  Claim C8. The signature is \<^verbatim>\<open>Generated by :no_entry_sign: \<close> followed by a link
  to the runtime's href with the runtime's name as its text, taken from \<^verbatim>\<open>meta\<close>, and
  from the name \<^verbatim>\<open>dangerJS\<close> and the href \<^verbatim>\<open>https://danger.systems/js\<close> when
  \<^verbatim>\<open>meta\<close> is absent. Without a commit reference the signature of the issue body
  is that string, which ends in the closing tag of the link; with a commit reference,
  \<^verbatim>\<open> against <commitRef>\<close> is appended. The issue body ends with the signature
  in its right-aligned paragraph.
\<close>

theorem signature_line:
  \<open>(meta results = None \<longrightarrow>
      dangerSignature results =
        lit ''Generated by :no_entry_sign: <a href="https://danger.systems/js">dangerJS</a>'') \<and>
   (\<forall>m. meta results = Some m \<longrightarrow>
      dangerSignature results =
        lit ''Generated by :no_entry_sign: <a href="'' @ runtimeHref m @ lit ''">''
        @ runtimeName m @ lit ''</a>'') \<and>
   suffix (lit ''</a>'') (dangerSignature results) \<and>
   dangerSignaturePostfix results None = dangerSignature results \<and>
   (\<forall>commitRef. dangerSignaturePostfix results (Some commitRef) =
      dangerSignature results @ lit '' against '' @ commitRef) \<and>
   suffix (lit ''\<newline><p align="right">\<newline>  '' @ dangerSignaturePostfix results commitID
           @ lit ''\<newline></p>\<newline>'')
     (template buildID results commitID)\<close>
proof (intro conjI allI impI)
  assume "meta results = None"
  then show \<open>dangerSignature results =
        lit ''Generated by :no_entry_sign: <a href="https://danger.systems/js">dangerJS</a>''\<close>
    by (simp add: dangerSignature_def lit_def)
next
  fix m assume "meta results = Some m"
  then show \<open>dangerSignature results =
        lit ''Generated by :no_entry_sign: <a href="'' @ runtimeHref m @ lit ''">''
        @ runtimeName m @ lit ''</a>''\<close>
    by (simp add: dangerSignature_def)
next
  show "suffix (lit ''</a>'') (dangerSignature results)"
    by (simp add: dangerSignature_def Let_def suffix_def)
next
  show "dangerSignaturePostfix results None = dangerSignature results"
    by (simp add: dangerSignaturePostfix_def)
next
  fix commitRef
  show "dangerSignaturePostfix results (Some commitRef) =
      dangerSignature results @ lit '' against '' @ commitRef"
    by (simp add: dangerSignaturePostfix_def)
next
  show \<open>suffix (lit ''\<newline><p align="right">\<newline>  '' @ dangerSignaturePostfix results commitID
           @ lit ''\<newline></p>\<newline>'')
     (template buildID results commitID)\<close>
    unfolding template_def suffix_def by (metis append.assoc)
qed

theorem signature_line_witness:
  \<open>dangerSignaturePostfix
     \<lparr>fails = [], warnings = [], messages = [], markdowns = [], meta = None\<rparr> None =
     lit ''Generated by :no_entry_sign: <a href="https://danger.systems/js">dangerJS</a>'' \<and>
   dangerSignaturePostfix
     \<lparr>fails = [], warnings = [], messages = [], markdowns = [],
      meta = Some \<lparr>runtimeName = lit ''Peril'', runtimeHref = lit ''https://peril.example''\<rparr>\<rparr>
     (Some (lit ''abc123'')) =
     lit ''Generated by :no_entry_sign: <a href="https://peril.example">Peril</a> against abc123''\<close>
proof -
  let ?r = "\<lparr>fails = [], warnings = [], messages = [], markdowns = [], meta = None\<rparr>"
  let ?m = "\<lparr>runtimeName = lit ''Peril'', runtimeHref = lit ''https://peril.example''\<rparr>"
  let ?s = "\<lparr>fails = [], warnings = [], messages = [], markdowns = [], meta = Some ?m\<rparr>"
  note a = signature_line [of ?r]
  note b = signature_line [of ?s]
  have 1: \<open>dangerSignature ?r =
      lit ''Generated by :no_entry_sign: <a href="https://danger.systems/js">dangerJS</a>''\<close>
    using a [THEN conjunct1] by simp
  have 2: \<open>dangerSignature ?s =
      lit ''Generated by :no_entry_sign: <a href="'' @ runtimeHref ?m @ lit ''">''
      @ runtimeName ?m @ lit ''</a>''\<close>
    using b [THEN conjunct2, THEN conjunct1] by simp
  have 3: "dangerSignaturePostfix ?r None = dangerSignature ?r"
    using a [THEN conjunct2, THEN conjunct2, THEN conjunct2, THEN conjunct1] .
  have 4: "dangerSignaturePostfix ?s (Some (lit ''abc123'')) =
      dangerSignature ?s @ lit '' against '' @ lit ''abc123''"
    using b [THEN conjunct2, THEN conjunct2, THEN conjunct2, THEN conjunct2, THEN conjunct1]
    by simp
  show ?thesis
    unfolding 3 4 1 2 by (simp add: lit_def)
qed

text \<open>
  Claim C9. For a violation that is not inline and whose message contains a backtick, or
  any of the characters \<^verbatim>\<open>* _ ~ [\<close>, the message cell of its table row is the
  message wrapped: two newlines and two spaces before it, a newline and two spaces after
  it; the bullet of the same violation in the inline body is \<^verbatim>\<open>- <glyph> <message>\<close>,
  the message unwrapped. The row is part of the issue body and the bullet part of the
  inline body, for a violation of any of the three categories.
\<close>

theorem markdown_row_wrapped_bullet_plain:
  assumes "\<not> isInline v"
    and \<open>\<exists>c\<in>set (message v). c \<in> set (lit ''`*_~['')\<close>
  shows "htmlForValidation defaultEmoji v =
       lit ''<tr>\<newline>      <td>'' @ iconOr (icon v) (lit '':'' @ defaultEmoji @ lit '':'')
       @ lit ''</td>\<newline>      <td>''
       @ lit ''\<newline>\<newline>  '' @ message v @ lit ''\<newline>  ''
       @ lit ''</td>\<newline>    </tr>\<newline>  '' \<and>
     printViolation defaultEmoji v =
       lit ''- '' @ iconOr (icon v) (lit '':'' @ defaultEmoji @ lit '':'') @ lit '' '' @ message v \<and>
     (v \<in> set (fails results) \<longrightarrow>
        sublist (htmlForValidation (lit ''no_entry_sign'') v) (template dangerID results commitID) \<and>
        sublist (printViolation (lit ''no_entry_sign'') v) (inlineTemplate dangerID results f l)) \<and>
     (v \<in> set (warnings results) \<longrightarrow>
        sublist (htmlForValidation (lit ''warning'') v) (template dangerID results commitID) \<and>
        sublist (printViolation (lit ''warning'') v) (inlineTemplate dangerID results f l)) \<and>
     (v \<in> set (messages results) \<longrightarrow>
        sublist (htmlForValidation (lit ''book'') v) (template dangerID results commitID) \<and>
        sublist (printViolation (lit ''book'') v) (inlineTemplate dangerID results f l))"
proof -
  have "containsMarkdown (message v)"
    using assms(2) by (simp add: containsMarkdown_iff markdownClass_def)
  then have cell: "cellMessage v = lit ''\<newline>\<newline>  '' @ message v @ lit ''\<newline>  ''"
    using assms(1) by (simp add: cellMessage_wrapped)
  have ne: "message v \<noteq> []" using assms(2) by auto
  have row: "sublist (htmlForValidation e v) (template dangerID results commitID)"
    if "v \<in> set vs" and "sublist (table name e vs) (template dangerID results commitID)"
    for e name vs
  proof -
    have "\<not> noViolationsOrAllOfThemEmpty vs"
      using that(1) ne by (auto simp: noViolationsOrAllOfThemEmpty_def list_all_iff)
    from sublist_row_table [OF that(1) this] that(2) show ?thesis
      by (rule sublist_order.order.trans)
  qed
  have bullet: "sublist (printViolation e v) (inlineTemplate dangerID results f l)"
    if "v \<in> set vs"
      and "sublist (join (lit ''\<newline>'') (map (printViolation e) vs))
             (inlineTemplate dangerID results f l)"
    for e vs
  proof -
    have "sublist (printViolation e v) (join (lit ''\<newline>'') (map (printViolation e) vs))"
      using that(1) by (intro sublist_join) simp
    then show ?thesis using that(2) by (rule sublist_order.order.trans)
  qed
  have eq: "htmlForValidation defaultEmoji v =
       lit ''<tr>\<newline>      <td>'' @ iconOr (icon v) (lit '':'' @ defaultEmoji @ lit '':'')
       @ lit ''</td>\<newline>      <td>''
       @ lit ''\<newline>\<newline>  '' @ message v @ lit ''\<newline>  ''
       @ lit ''</td>\<newline>    </tr>\<newline>  ''"
    by (simp add: htmlForValidation_row cell)
  have eq': "printViolation defaultEmoji v =
       lit ''- '' @ iconOr (icon v) (lit '':'' @ defaultEmoji @ lit '':'') @ lit '' '' @ message v"
    by (simp add: printViolation_def Let_def)
  have fs: "v \<in> set (fails results) \<longrightarrow>
        sublist (htmlForValidation (lit ''no_entry_sign'') v) (template dangerID results commitID) \<and>
        sublist (printViolation (lit ''no_entry_sign'') v) (inlineTemplate dangerID results f l)"
    using row [OF _ sublist_tables_template(1)] bullet [OF _ sublist_bullets_inlineTemplate(1)]
    by blast
  have ws: "v \<in> set (warnings results) \<longrightarrow>
        sublist (htmlForValidation (lit ''warning'') v) (template dangerID results commitID) \<and>
        sublist (printViolation (lit ''warning'') v) (inlineTemplate dangerID results f l)"
    using row [OF _ sublist_tables_template(2)] bullet [OF _ sublist_bullets_inlineTemplate(2)]
    by blast
  have ms: "v \<in> set (messages results) \<longrightarrow>
        sublist (htmlForValidation (lit ''book'') v) (template dangerID results commitID) \<and>
        sublist (printViolation (lit ''book'') v) (inlineTemplate dangerID results f l)"
    using row [OF _ sublist_tables_template(3)] bullet [OF _ sublist_bullets_inlineTemplate(3)]
    by blast
  from eq eq' fs ws ms show ?thesis by (intro conjI)
qed

theorem markdown_row_wrapped_bullet_plain_witness:
  \<open>htmlForValidation (lit ''warning'')
     \<lparr>message = lit ''use `x` instead'', file = None, line = None, icon = None\<rparr> =
   lit ''<tr>\<newline>      <td>:warning:</td>\<newline>      <td>\<newline>\<newline>  use `x` instead\<newline>  </td>\<newline>    </tr>\<newline>  '' \<and>
   printViolation (lit ''warning'')
     \<lparr>message = lit ''use `x` instead'', file = None, line = None, icon = None\<rparr> =
   lit ''- :warning: use `x` instead''\<close>
proof -
  let ?v = \<open>\<lparr>message = lit ''use `x` instead'', file = None, line = None, icon = None\<rparr>\<close>
  have 1: "\<not> isInline ?v" by (simp add: isInline_def)
  have 2: \<open>\<exists>c\<in>set (message ?v). c \<in> set (lit ''`*_~['')\<close> by (simp add: lit_def)
  note t = markdown_row_wrapped_bullet_plain [OF 1 2, of "lit ''warning''"]
  show ?thesis
    using t [THEN conjunct1] t [THEN conjunct2, THEN conjunct1]
    by (simp add: iconOr_def lit_def)
qed

text \<open>
  Claim C10. For every inline violation (file and line both present), whatever its
  message, the markdown check of the message with its location prefix is true, since the
  prefix contains \<^verbatim>\<open>*\<close>; so the message cell of its table row is always wrapped: two
  newlines, two spaces, \<^verbatim>\<open>**<file>#L<line>** - <message>\<close>, a newline and two
  spaces.
\<close>

theorem inline_row_wrapped:
  assumes "file v = Some f" and "line v = Some l"
  shows "containsMarkdown
       (lit ''**'' @ f @ lit ''#L'' @ numberToString l @ lit ''** - '' @ message v) \<and>
     cellMessage v =
       lit ''\<newline>\<newline>  **'' @ f @ lit ''#L'' @ numberToString l @ lit ''** - '' @ message v
       @ lit ''\<newline>  '' \<and>
     htmlForValidation defaultEmoji v =
       lit ''<tr>\<newline>      <td>'' @ iconOr (icon v) (lit '':'' @ defaultEmoji @ lit '':'')
       @ lit ''</td>\<newline>      <td>''
       @ lit ''\<newline>\<newline>  **'' @ f @ lit ''#L'' @ numberToString l @ lit ''** - '' @ message v
       @ lit ''\<newline>  ''
       @ lit ''</td>\<newline>    </tr>\<newline>  ''"
proof -
  have inl: "isInline v" using assms by (simp add: isInline_def)
  have loc: "locatedMessage v =
      lit ''**'' @ f @ lit ''#L'' @ numberToString l @ lit ''** - '' @ message v"
    using assms by (simp add: locatedMessage_def isInline_def)
  have md: "containsMarkdown
       (lit ''**'' @ f @ lit ''#L'' @ numberToString l @ lit ''** - '' @ message v)"
    using containsMarkdown_located [OF inl] unfolding loc .
  have cell: "cellMessage v =
       lit ''\<newline>\<newline>  **'' @ f @ lit ''#L'' @ numberToString l @ lit ''** - '' @ message v
       @ lit ''\<newline>  ''"
    by (simp add: cellMessage_inline [OF assms]) (simp add: lit_def)
  have "htmlForValidation defaultEmoji v =
       lit ''<tr>\<newline>      <td>'' @ iconOr (icon v) (lit '':'' @ defaultEmoji @ lit '':'')
       @ lit ''</td>\<newline>      <td>''
       @ lit ''\<newline>\<newline>  **'' @ f @ lit ''#L'' @ numberToString l @ lit ''** - '' @ message v
       @ lit ''\<newline>  ''
       @ lit ''</td>\<newline>    </tr>\<newline>  ''"
    by (simp add: htmlForValidation_row cell)
  with md cell show ?thesis by (intro conjI)
qed

theorem inline_row_wrapped_witness:
  "htmlForValidation (lit ''warning'')
     \<lparr>message = lit ''plain text'', file = Some (lit ''src/index.ts''), line = Some 120,
      icon = None\<rparr> =
   lit ''<tr>\<newline>      <td>:warning:</td>\<newline>      <td>\<newline>\<newline>  **src/index.ts#L120** - plain text\<newline>  </td>\<newline>    </tr>\<newline>  ''"
proof -
  let ?v = "\<lparr>message = lit ''plain text'', file = Some (lit ''src/index.ts''),
             line = Some 120, icon = None\<rparr>"
  have f: "file ?v = Some (lit ''src/index.ts'')" and l: "line ?v = Some 120"
    by simp_all
  have n: "numberToString 120 = lit ''120''"
    by (simp add: numberToString_def digits.simps digit_def lit_def)
  show ?thesis
    using inline_row_wrapped [OF f l, of "lit ''warning''", THEN conjunct2, THEN conjunct2]
    unfolding n by (simp add: iconOr_def lit_def)
qed

end
